theory Spec2Isabelle
  imports Complex_Main
begin

section \<open>Data model of the light-source controller\<close>

text \<open>
  The embedding follows \<^verbatim>\<open>examples/quantum_light_controller.py\<close> and
  \<^verbatim>\<open>src/adapters/device_adapters.py\<close>. A Python float is a \<open>pyfloat\<close>: a real
  number, an infinity or NaN (rounding and the sign of zero are not modelled). Calls to
  \<^verbatim>\<open>logging\<close> are left out: they change nothing the program reads back. Python names
  with a leading underscore lose it.
\<close>

datatype LightSourceState = OFF | STANDBY | CALIBRATING | READY | EMITTING | ERROR

datatype OutputMode = CONTINUOUS | PULSED | BURST

text \<open>
  Floats compare as in IEEE 754: every comparison with NaN is false, so \<open>\<not> a < b\<close> does
  not give \<open>b \<le> a\<close>. The source compares floats with \<^verbatim>\<open><\<close>, \<^verbatim>\<open><=\<close> and \<^verbatim>\<open>>\<close>
  only, and multiplies in the warm-up ramp.
\<close>

datatype pyfloat = Finite real | PosInf | NegInf | NaN

instantiation pyfloat :: "{zero, one, ord, times}"
begin

definition zero_pyfloat :: pyfloat where
  "zero_pyfloat = Finite 0"

definition one_pyfloat :: pyfloat where
  "one_pyfloat = Finite 1"

fun less_pyfloat :: "pyfloat \<Rightarrow> pyfloat \<Rightarrow> bool" where
  "less_pyfloat NaN b = False"
| "less_pyfloat a NaN = False"
| "less_pyfloat (Finite x) (Finite y) = (x < y)"
| "less_pyfloat (Finite x) PosInf = True"
| "less_pyfloat (Finite x) NegInf = False"
| "less_pyfloat PosInf b = False"
| "less_pyfloat NegInf NegInf = False"
| "less_pyfloat NegInf b = True"

fun less_eq_pyfloat :: "pyfloat \<Rightarrow> pyfloat \<Rightarrow> bool" where
  "less_eq_pyfloat NaN b = False"
| "less_eq_pyfloat a NaN = False"
| "less_eq_pyfloat (Finite x) (Finite y) = (x \<le> y)"
| "less_eq_pyfloat (Finite x) PosInf = True"
| "less_eq_pyfloat (Finite x) NegInf = False"
| "less_eq_pyfloat PosInf PosInf = True"
| "less_eq_pyfloat PosInf b = False"
| "less_eq_pyfloat NegInf b = True"

fun times_pyfloat :: "pyfloat \<Rightarrow> pyfloat \<Rightarrow> pyfloat" where
  "times_pyfloat NaN b = NaN"
| "times_pyfloat a NaN = NaN"
| "times_pyfloat (Finite x) (Finite y) = Finite (x * y)"
| "times_pyfloat (Finite x) PosInf = (if 0 < x then PosInf else if x < 0 then NegInf else NaN)"
| "times_pyfloat (Finite x) NegInf = (if 0 < x then NegInf else if x < 0 then PosInf else NaN)"
| "times_pyfloat PosInf (Finite y) = (if 0 < y then PosInf else if y < 0 then NegInf else NaN)"
| "times_pyfloat NegInf (Finite y) = (if 0 < y then NegInf else if y < 0 then PosInf else NaN)"
| "times_pyfloat PosInf PosInf = PosInf"
| "times_pyfloat PosInf NegInf = NegInf"
| "times_pyfloat NegInf PosInf = NegInf"
| "times_pyfloat NegInf NegInf = PosInf"

instance ..

end

record LightSourceConfig =
  wavelength :: pyfloat
  max_power :: pyfloat
  stability_target :: pyfloat
  warmup_time :: pyfloat
  calibration_interval :: int

text \<open>The field \<^verbatim>\<open>power\<close> is named \<open>power_w\<close>: \<open>power\<close> is exponentiation in HOL.\<close>

record EmissionParameters =
  power_w :: pyfloat
  duration :: pyfloat
  frequency :: pyfloat
  duty_cycle :: pyfloat
  mode :: OutputMode

record QuantumJetSubsystem =
  status :: string
  capsule_count :: int
  uniformity :: pyfloat

record ShenquOptimizerSubsystem =
  optimization_active :: bool
  optimizer_power :: pyfloat
  stability :: pyfloat

record PerformanceMonitor =
  monitoring_active :: bool
  metrics :: "(string \<times> pyfloat) list"

text \<open>
  The data handed to a subscriber: the dictionary of \<^verbatim>\<open>_update_state\<close> (old and new
  state; its wall-clock timestamp is not modelled) or the new power of \<^verbatim>\<open>set_power\<close>.
\<close>

datatype payload = State_change LightSourceState LightSourceState | Power_update pyfloat

text \<open>
  A subscriber is an opaque callable: it is known by an identity and by whether it raises
  on a given payload. It does not call back into the controller.
\<close>

record callback =
  cb_id :: nat
  cb_raises :: "payload \<Rightarrow> bool"

datatype exn = ValueError | CallbackError nat | SubsystemError | NameError | AttributeError | TransportError

datatype 'a result = Returned 'a | Raised exn

text \<open>
  The observable effects of a run, in the order they happen: each method called on a
  subsystem, each \<^verbatim>\<open>time.sleep\<close> of the controller itself, each timer started, each
  event published and each subscriber invoked.
\<close>

datatype effect =
    Jet_initialize | Jet_shutdown | Jet_calibrate | Jet_configure_emission EmissionParameters
  | Opt_warm_up | Opt_shutdown | Opt_calibrate
  | Opt_start_real_time_optimization | Opt_stop_real_time_optimization
  | Opt_adjust_power pyfloat | Opt_prepare_for_power pyfloat
  | Opt_configure_optimization EmissionParameters
  | Mon_calibrate_sensors | Mon_start_power_monitoring | Mon_stop_power_monitoring
  | Mon_configure_monitoring EmissionParameters
  | Sleep int
  | Timer_started pyfloat
  | Published string payload
  | Callback_invoked nat payload

text \<open>
  The controller object. \<open>timers\<close> holds the intervals of the \<^verbatim>\<open>threading.Timer\<close>
  objects that were started and have not fired yet; \<open>trace\<close> is the effect history.
\<close>

record QuantumLightSourceController =
  config :: LightSourceConfig
  state :: LightSourceState
  current_power :: pyfloat
  operating_time :: pyfloat
  quantum_jet :: QuantumJetSubsystem
  optimizer :: ShenquOptimizerSubsystem
  monitor :: PerformanceMonitor
  callbacks :: "string \<rightharpoonup> callback list"
  timers :: "pyfloat list"
  trace :: "effect list"

type_synonym 'a prog = "QuantumLightSourceController \<Rightarrow> 'a result \<times> QuantumLightSourceController"

section \<open>Sequencing, exceptions and state\<close>

definition returns :: "'a \<Rightarrow> 'a prog" where
  "returns x = (\<lambda>c. (Returned x, c))"

definition raises :: "exn \<Rightarrow> 'a prog" where
  "raises e = (\<lambda>c. (Raised e, c))"

definition bind_prog :: "'a prog \<Rightarrow> ('a \<Rightarrow> 'b prog) \<Rightarrow> 'b prog" where
  "bind_prog m f = (\<lambda>c. case m c of
       (Returned x, c') \<Rightarrow> f x c'
     | (Raised e, c') \<Rightarrow> (Raised e, c'))"

definition seq_prog :: "'a prog \<Rightarrow> 'b prog \<Rightarrow> 'b prog" where
  "seq_prog m n = bind_prog m (\<lambda>_. n)"

definition try_except :: "'a prog \<Rightarrow> (exn \<Rightarrow> 'a prog) \<Rightarrow> 'a prog" where
  "try_except m h = (\<lambda>c. case m c of
       (Returned x, c') \<Rightarrow> (Returned x, c')
     | (Raised e, c') \<Rightarrow> h e c')"

definition modify :: "(QuantumLightSourceController \<Rightarrow> QuantumLightSourceController) \<Rightarrow> unit prog" where
  "modify f = (\<lambda>c. (Returned (), f c))"

definition emit :: "effect \<Rightarrow> unit prog" where
  "emit e = modify (\<lambda>c. c\<lparr>trace := trace c @ [e]\<rparr>)"

text \<open>A block of statements, run in order until one raises.\<close>

fun block :: "unit prog list \<Rightarrow> unit prog" where
  "block [] = returns ()"
| "block (m # ms) = seq_prog m (block ms)"

text \<open>
  A method call on one of the three subsystem objects: it is recorded, then it runs on
  that object alone; what it did to the object stays even when it raises.
\<close>

definition on_quantum_jet ::
  "effect \<Rightarrow> (QuantumJetSubsystem \<Rightarrow> 'a result \<times> QuantumJetSubsystem) \<Rightarrow> 'a prog" where
  "on_quantum_jet e f = (\<lambda>c. case f (quantum_jet c) of
       (r, j) \<Rightarrow> (r, c\<lparr>quantum_jet := j, trace := trace c @ [e]\<rparr>))"

definition on_optimizer ::
  "effect \<Rightarrow> (ShenquOptimizerSubsystem \<Rightarrow> 'a result \<times> ShenquOptimizerSubsystem) \<Rightarrow> 'a prog" where
  "on_optimizer e f = (\<lambda>c. case f (optimizer c) of
       (r, ob) \<Rightarrow> (r, c\<lparr>optimizer := ob, trace := trace c @ [e]\<rparr>))"

definition on_monitor ::
  "effect \<Rightarrow> (PerformanceMonitor \<Rightarrow> 'a result \<times> PerformanceMonitor) \<Rightarrow> 'a prog" where
  "on_monitor e f = (\<lambda>c. case f (monitor c) of
       (r, mo) \<Rightarrow> (r, c\<lparr>monitor := mo, trace := trace c @ [e]\<rparr>))"

section \<open>The simulated subsystems\<close>

definition QuantumJetSubsystem_init :: QuantumJetSubsystem where
  "QuantumJetSubsystem_init =
     \<lparr>status = ''initialized'', capsule_count = 0, uniformity = Finite (95 / 100)\<rparr>"

definition jet_initialize :: "QuantumJetSubsystem \<Rightarrow> bool result \<times> QuantumJetSubsystem" where
  "jet_initialize j = (Returned True, j\<lparr>status := ''ready'', capsule_count := 5000\<rparr>)"

definition jet_shutdown :: "QuantumJetSubsystem \<Rightarrow> unit result \<times> QuantumJetSubsystem" where
  "jet_shutdown j = (Returned (), j\<lparr>status := ''off'', capsule_count := 0\<rparr>)"

definition jet_calibrate :: "QuantumJetSubsystem \<Rightarrow> bool result \<times> QuantumJetSubsystem" where
  "jet_calibrate j = (Returned True, j\<lparr>uniformity := Finite (98 / 100)\<rparr>)"

definition jet_configure_emission ::
  "EmissionParameters \<Rightarrow> QuantumJetSubsystem \<Rightarrow> unit result \<times> QuantumJetSubsystem" where
  "jet_configure_emission params j = (Returned (), j)"

definition ShenquOptimizerSubsystem_init :: ShenquOptimizerSubsystem where
  "ShenquOptimizerSubsystem_init =
     \<lparr>optimization_active = False, optimizer_power = 0, stability = Finite (99 / 100)\<rparr>"

definition opt_warm_up :: "ShenquOptimizerSubsystem \<Rightarrow> unit result \<times> ShenquOptimizerSubsystem" where
  "opt_warm_up ob = (Returned (), ob)"

definition opt_shutdown :: "ShenquOptimizerSubsystem \<Rightarrow> unit result \<times> ShenquOptimizerSubsystem" where
  "opt_shutdown ob = (Returned (), ob\<lparr>optimization_active := False\<rparr>)"

definition opt_calibrate :: "ShenquOptimizerSubsystem \<Rightarrow> bool result \<times> ShenquOptimizerSubsystem" where
  "opt_calibrate ob = (Returned True, ob\<lparr>stability := Finite (995 / 1000)\<rparr>)"

definition opt_start_real_time_optimization ::
  "ShenquOptimizerSubsystem \<Rightarrow> unit result \<times> ShenquOptimizerSubsystem" where
  "opt_start_real_time_optimization ob = (Returned (), ob\<lparr>optimization_active := True\<rparr>)"

definition opt_stop_real_time_optimization ::
  "ShenquOptimizerSubsystem \<Rightarrow> unit result \<times> ShenquOptimizerSubsystem" where
  "opt_stop_real_time_optimization ob = (Returned (), ob\<lparr>optimization_active := False\<rparr>)"

definition opt_adjust_power ::
  "pyfloat \<Rightarrow> ShenquOptimizerSubsystem \<Rightarrow> bool result \<times> ShenquOptimizerSubsystem" where
  "opt_adjust_power p ob = (Returned True, ob\<lparr>optimizer_power := p\<rparr>)"

definition opt_prepare_for_power ::
  "pyfloat \<Rightarrow> ShenquOptimizerSubsystem \<Rightarrow> unit result \<times> ShenquOptimizerSubsystem" where
  "opt_prepare_for_power p ob = (Returned (), ob)"

definition opt_configure_optimization ::
  "EmissionParameters \<Rightarrow> ShenquOptimizerSubsystem \<Rightarrow> unit result \<times> ShenquOptimizerSubsystem" where
  "opt_configure_optimization params ob = (Returned (), ob)"

definition PerformanceMonitor_init :: PerformanceMonitor where
  "PerformanceMonitor_init =
     \<lparr>monitoring_active = False,
      metrics = [(''stability'', Finite (99 / 100)), (''efficiency'', Finite (135 / 100)),
                 (''temperature'', Finite 25)]\<rparr>"

definition mon_calibrate_sensors :: "PerformanceMonitor \<Rightarrow> bool result \<times> PerformanceMonitor" where
  "mon_calibrate_sensors mo = (Returned True, mo)"

definition mon_start_power_monitoring ::
  "PerformanceMonitor \<Rightarrow> unit result \<times> PerformanceMonitor" where
  "mon_start_power_monitoring mo = (Returned (), mo\<lparr>monitoring_active := True\<rparr>)"

definition mon_stop_power_monitoring ::
  "PerformanceMonitor \<Rightarrow> unit result \<times> PerformanceMonitor" where
  "mon_stop_power_monitoring mo = (Returned (), mo\<lparr>monitoring_active := False\<rparr>)"

definition mon_configure_monitoring ::
  "EmissionParameters \<Rightarrow> PerformanceMonitor \<Rightarrow> unit result \<times> PerformanceMonitor" where
  "mon_configure_monitoring params mo = (Returned (), mo)"

section \<open>The controller\<close>

definition QuantumLightSourceController_init :: "LightSourceConfig \<Rightarrow> QuantumLightSourceController" where
  "QuantumLightSourceController_init cfg =
     \<lparr>config = cfg, state = OFF, current_power = 0, operating_time = 0,
      quantum_jet = QuantumJetSubsystem_init,
      optimizer = ShenquOptimizerSubsystem_init,
      monitor = PerformanceMonitor_init,
      callbacks = [''state_change'' \<mapsto> [], ''power_update'' \<mapsto> [], ''error'' \<mapsto> []],
      timers = [], trace = []\<rparr>"

definition register_callback :: "string \<Rightarrow> callback \<Rightarrow> unit prog" where
  "register_callback event cb = (\<lambda>c. case callbacks c event of
       None \<Rightarrow> (Returned (), c)
     | Some cbs \<Rightarrow> (Returned (), c\<lparr>callbacks := (callbacks c)(event \<mapsto> cbs @ [cb])\<rparr>))"

text \<open>Calling one subscriber: the call happens, then it returns or raises.\<close>

definition invoke :: "callback \<Rightarrow> payload \<Rightarrow> unit prog" where
  "invoke cb d = seq_prog (emit (Callback_invoked (cb_id cb) d))
     (if cb_raises cb d then raises (CallbackError (cb_id cb)) else returns ())"

text \<open>The loop of \<^verbatim>\<open>_trigger_callbacks\<close>: each call sits in its own try/except.\<close>

fun for_each_callback :: "callback list \<Rightarrow> payload \<Rightarrow> unit prog" where
  "for_each_callback [] d = returns ()"
| "for_each_callback (cb # cbs) d =
     seq_prog (try_except (invoke cb d) (\<lambda>e. returns ())) (for_each_callback cbs d)"

definition subscribers :: "QuantumLightSourceController \<Rightarrow> string \<Rightarrow> callback list" where
  "subscribers c event = (case callbacks c event of None \<Rightarrow> [] | Some cbs \<Rightarrow> cbs)"

definition trigger_callbacks :: "string \<Rightarrow> payload \<Rightarrow> unit prog" where
  "trigger_callbacks event d = (\<lambda>c.
     seq_prog (emit (Published event d)) (for_each_callback (subscribers c event) d) c)"

definition update_state :: "LightSourceState \<Rightarrow> unit prog" where
  "update_state new_state = (\<lambda>c.
     seq_prog (modify (\<lambda>c'. c'\<lparr>state := new_state\<rparr>))
       (trigger_callbacks ''state_change'' (State_change (state c) new_state)) c)"

definition warmup_steps :: "(pyfloat \<times> int) list" where
  "warmup_steps =
     [(Finite (1 / 10), 2), (Finite (3 / 10), 3), (Finite (6 / 10), 3), (Finite (8 / 10), 2)]"

fun warmup_loop :: "(pyfloat \<times> int) list \<Rightarrow> unit prog" where
  "warmup_loop [] = returns ()"
| "warmup_loop ((power_ratio, dur) # rest) = (\<lambda>c.
     block [on_optimizer (Opt_prepare_for_power (max_power (config c) * power_ratio))
              (opt_prepare_for_power (max_power (config c) * power_ratio)),
            emit (Sleep dur),
            warmup_loop rest] c)"

definition execute_warmup_sequence :: "unit prog" where
  "execute_warmup_sequence = warmup_loop warmup_steps"

definition ignore_result :: "'a prog \<Rightarrow> unit prog" where
  "ignore_result m = bind_prog m (\<lambda>_. returns ())"

definition power_on :: "bool prog" where
  "power_on = (\<lambda>c.
     if state c \<noteq> OFF then (Returned False, c)
     else try_except
            (seq_prog
               (block [update_state STANDBY,
                       ignore_result (on_quantum_jet Jet_initialize jet_initialize),
                       on_optimizer Opt_warm_up opt_warm_up,
                       execute_warmup_sequence,
                       update_state READY])
               (returns True))
            (\<lambda>e. seq_prog (update_state ERROR) (returns False)) c)"

definition stop_emission :: "unit prog" where
  "stop_emission = (\<lambda>c.
     if state c = EMITTING
     then block [on_optimizer Opt_stop_real_time_optimization opt_stop_real_time_optimization,
                 on_monitor Mon_stop_power_monitoring mon_stop_power_monitoring,
                 update_state READY,
                 modify (\<lambda>c'. c'\<lparr>current_power := 0\<rparr>)] c
     else (Returned (), c))"

definition power_off :: "unit prog" where
  "power_off =
     block [stop_emission,
            on_optimizer Opt_shutdown opt_shutdown,
            on_quantum_jet Jet_shutdown jet_shutdown,
            update_state OFF,
            modify (\<lambda>c. c\<lparr>current_power := 0\<rparr>)]"

definition validate_emission_parameters :: "EmissionParameters \<Rightarrow> unit prog" where
  "validate_emission_parameters params = (\<lambda>c.
     if power_w params \<le> 0 \<or> power_w params > max_power (config c) then raises ValueError c
     else if duration params < 0 then raises ValueError c
     else if frequency params < 0 then raises ValueError c
     else if duty_cycle params \<le> 0 \<or> duty_cycle params > 1 then raises ValueError c
     else returns () c)"

definition apply_emission_parameters :: "EmissionParameters \<Rightarrow> unit prog" where
  "apply_emission_parameters params =
     block [on_quantum_jet (Jet_configure_emission params) (jet_configure_emission params),
            on_optimizer (Opt_configure_optimization params) (opt_configure_optimization params),
            on_monitor (Mon_configure_monitoring params) (mon_configure_monitoring params)]"

text \<open>
  \<^verbatim>\<open>threading.Timer(d, self.stop_emission).start()\<close>: the timer object is not kept
  anywhere, it only becomes pending.
\<close>

definition start_timer :: "pyfloat \<Rightarrow> unit prog" where
  "start_timer d = modify (\<lambda>c. c\<lparr>timers := timers c @ [d], trace := trace c @ [Timer_started d]\<rparr>)"

definition start_emission :: "EmissionParameters \<Rightarrow> bool prog" where
  "start_emission params = (\<lambda>c.
     if state c \<noteq> READY then (Returned False, c)
     else try_except
            (seq_prog
               (block [validate_emission_parameters params,
                       apply_emission_parameters params,
                       on_optimizer Opt_start_real_time_optimization opt_start_real_time_optimization,
                       update_state EMITTING,
                       modify (\<lambda>c'. c'\<lparr>current_power := power_w params\<rparr>),
                       on_monitor Mon_start_power_monitoring mon_start_power_monitoring,
                       (if duration params > 0 then start_timer (duration params) else returns ())])
               (returns True))
            (\<lambda>e. returns False) c)"

text \<open>
  A pending timer fires: it leaves the pending list and its thread calls
  \<^verbatim>\<open>stop_emission\<close>. Firing happens between the operations of the control thread.
\<close>

definition timer_expires :: "nat \<Rightarrow> unit prog" where
  "timer_expires i = (\<lambda>c.
     if i < length (timers c)
     then stop_emission (c\<lparr>timers := take i (timers c) @ drop (Suc i) (timers c)\<rparr>)
     else (Returned (), c))"

definition set_power :: "pyfloat \<Rightarrow> bool prog" where
  "set_power p = (\<lambda>c.
     if p < 0 \<or> p > max_power (config c) then (Returned False, c)
     else if state c \<noteq> EMITTING then (Returned False, c)
     else try_except
            (bind_prog (on_optimizer (Opt_adjust_power p) (opt_adjust_power p)) (\<lambda>success.
               if success
               then seq_prog
                      (block [modify (\<lambda>c'. c'\<lparr>current_power := p\<rparr>),
                              trigger_callbacks ''power_update'' (Power_update p)])
                      (returns success)
               else returns success))
            (\<lambda>e. returns False) c)"

text \<open>
  \<^verbatim>\<open>calibrate\<close> calls one method on each subsystem object and looks at what it
  returns. \<open>calibrate_with\<close> is its body with those three methods as parameters, so that
  a calibration returning false or raising can be expressed; \<open>calibrate\<close> is the body
  with the methods of the simulated subsystems.
\<close>

definition calibrate_with ::
  "(QuantumJetSubsystem \<Rightarrow> bool result \<times> QuantumJetSubsystem) \<Rightarrow>
   (ShenquOptimizerSubsystem \<Rightarrow> bool result \<times> ShenquOptimizerSubsystem) \<Rightarrow>
   (PerformanceMonitor \<Rightarrow> bool result \<times> PerformanceMonitor) \<Rightarrow> bool prog" where
  "calibrate_with jc oc mc =
     seq_prog (update_state CALIBRATING)
       (try_except
          (bind_prog (on_quantum_jet Jet_calibrate jc) (\<lambda>r1.
           bind_prog (on_optimizer Opt_calibrate oc) (\<lambda>r2.
           bind_prog (on_monitor Mon_calibrate_sensors mc) (\<lambda>r3.
             if list_all id [r1, r2, r3]
             then seq_prog (update_state READY) (returns True)
             else seq_prog (update_state ERROR) (returns False)))))
          (\<lambda>e. seq_prog (update_state ERROR) (returns False)))"

definition calibrate :: "bool prog" where
  "calibrate = calibrate_with jet_calibrate opt_calibrate mon_calibrate_sensors"

section \<open>Device adapters and the device manager\<close>

text \<open>
  A command's parameters and a device's decoded answer are dictionaries of strings. The
  answers of the adapters are the dictionaries of the source, one constructor each:
  \<open>Error_not_connected\<close> is the dictionary whose \<^verbatim>\<open>error\<close> entry says that the device
  is not connected, \<open>Error_not_registered\<close> the one that names an unknown device,
  \<open>Error_send_failed\<close> the one built from a caught exception, \<open>Modbus_success\<close> the
  fixed answer of the Modbus adapter and \<open>Reply\<close> a decoded answer of the device.
\<close>

type_synonym params = "(string \<times> string) list"

datatype response =
    Error_not_connected
  | Error_not_registered string
  | Error_send_failed exn
  | Modbus_success
  | Reply params

text \<open>
  The three adapter classes. \<open>has_socket\<close> and \<open>has_serial\<close> say whether the
  attribute holding the transport object is set (it is \<^verbatim>\<open>None\<close> until \<^verbatim>\<open>connect\<close>).
\<close>

datatype DeviceAdapter =
    EthernetAdapter (host: string) (port: int) (timeout: pyfloat) (has_socket: bool) (connected: bool)
  | SerialAdapter (serial_port: string) (baudrate: int) (has_serial: bool) (connected: bool)
  | ModbusTCPAdapter (host: string) (port: int) (connected: bool)

text \<open>
  The world outside: every exchange attempted on a transport is logged, and the device at
  the other end answers an exchange with a decoded dictionary or makes the exchange raise.
\<close>

datatype io_event = Serial_exchange string string params

record io_world =
  io_log :: "io_event list"
  device_answer :: "string \<Rightarrow> string \<Rightarrow> params \<Rightarrow> params result"

text \<open>
  \<^verbatim>\<open>EthernetAdapter.send_command\<close> builds its message with \<^verbatim>\<open>time.time()\<close>, and the
  module does not import \<^verbatim>\<open>time\<close>: on a connected adapter the NameError is raised
  before the socket is touched, and the except clause turns it into an answer.
\<close>

fun send_command :: "DeviceAdapter \<Rightarrow> string \<Rightarrow> params \<Rightarrow> io_world \<Rightarrow> response \<times> io_world" where
  "send_command (EthernetAdapter h p t so conn) command parameters w =
     (if \<not> conn then (Error_not_connected, w)
      else (Error_send_failed NameError, w))"
| "send_command (SerialAdapter sp b se conn) command parameters w =
     (if \<not> conn then (Error_not_connected, w)
      else if \<not> se then (Error_send_failed AttributeError, w)
      else (case device_answer w sp command parameters of
              Returned d \<Rightarrow> (Reply d, w\<lparr>io_log := io_log w @ [Serial_exchange sp command parameters]\<rparr>)
            | Raised e \<Rightarrow>
                (Error_send_failed e, w\<lparr>io_log := io_log w @ [Serial_exchange sp command parameters]\<rparr>)))"
| "send_command (ModbusTCPAdapter h p conn) command parameters w =
     (if \<not> conn then (Error_not_connected, w)
      else (Modbus_success, w))"

record DeviceManager =
  adapters :: "string \<rightharpoonup> DeviceAdapter"
  device_configs :: "string \<rightharpoonup> params"

definition DeviceManager_init :: DeviceManager where
  "DeviceManager_init = \<lparr>adapters = Map.empty, device_configs = Map.empty\<rparr>"

definition register_device :: "string \<Rightarrow> DeviceAdapter \<Rightarrow> params \<Rightarrow> DeviceManager \<Rightarrow> DeviceManager" where
  "register_device device_id adapter cfg m =
     m\<lparr>adapters := (adapters m)(device_id \<mapsto> adapter),
       device_configs := (device_configs m)(device_id \<mapsto> cfg)\<rparr>"

text \<open>The manager is returned with the answer: \<^verbatim>\<open>send_to_device\<close> may not change it.\<close>

definition send_to_device ::
  "string \<Rightarrow> string \<Rightarrow> params \<Rightarrow> DeviceManager \<Rightarrow> io_world \<Rightarrow> response \<times> DeviceManager \<times> io_world" where
  "send_to_device device_id command ps m w =
     (case adapters m device_id of
        None \<Rightarrow> (Error_not_registered device_id, m, w)
      | Some adapter \<Rightarrow>
          (case send_command adapter command ps w of (r, w') \<Rightarrow> (r, m, w')))"

section \<open>Concrete runs\<close>

text \<open>
  What one change of state adds to the effect history: the publication, then one call
  per subscriber of \<^verbatim>\<open>state_change\<close>.
\<close>

definition state_change_trace ::
  "QuantumLightSourceController \<Rightarrow> LightSourceState \<Rightarrow> LightSourceState \<Rightarrow> effect list" where
  "state_change_trace c old new =
     Published ''state_change'' (State_change old new) #
     map (\<lambda>cb. Callback_invoked (cb_id cb) (State_change old new)) (subscribers c ''state_change'')"

text \<open>Powers are in nanowatts here: the default configuration allows 5 nW.\<close>

definition example_config :: LightSourceConfig where
  "example_config =
     \<lparr>wavelength = Finite (58 / 10), max_power = Finite 5, stability_target = Finite (1 / 100),
      warmup_time = Finite 30, calibration_interval = 3600\<rparr>"

definition quiet_subscriber :: callback where
  "quiet_subscriber = \<lparr>cb_id = 1, cb_raises = (\<lambda>d. False)\<rparr>"

definition failing_subscriber :: callback where
  "failing_subscriber = \<lparr>cb_id = 2, cb_raises = (\<lambda>d. True)\<rparr>"

definition example_off :: QuantumLightSourceController where
  "example_off =
     snd (block [register_callback ''power_update'' failing_subscriber,
                 register_callback ''power_update'' quiet_subscriber,
                 register_callback ''state_change'' quiet_subscriber]
            (QuantumLightSourceController_init example_config))"

definition example_ready :: QuantumLightSourceController where
  "example_ready = snd (power_on example_off)"

definition timed_emission :: EmissionParameters where
  "timed_emission =
     \<lparr>power_w = Finite 3, duration = Finite 10, frequency = 0, duty_cycle = 1, mode = CONTINUOUS\<rparr>"




definition example_emitting :: QuantumLightSourceController where
  "example_emitting = snd (start_emission timed_emission example_ready)"



definition jet_calibrate_failing :: "QuantumJetSubsystem \<Rightarrow> bool result \<times> QuantumJetSubsystem" where
  "jet_calibrate_failing j = (Returned False, j)"

definition jet_calibrate_raising :: "QuantumJetSubsystem \<Rightarrow> bool result \<times> QuantumJetSubsystem" where
  "jet_calibrate_raising j = (Raised SubsystemError, j)"

definition example_world :: io_world where
  "example_world = \<lparr>io_log = [], device_answer = (\<lambda>p command ps. Returned [(''status'', ''ok'')])\<rparr>"

definition stage_adapter :: DeviceAdapter where
  "stage_adapter = SerialAdapter ''/dev/ttyUSB0'' 9600 False False"

definition example_manager :: DeviceManager where
  "example_manager = register_device ''stage'' stage_adapter [] DeviceManager_init"

text \<open>The effects of the four-step ramp of \<^verbatim>\<open>_execute_warmup_sequence\<close>.\<close>

definition warmup_trace :: "pyfloat \<Rightarrow> effect list" where
  "warmup_trace m =
     [Opt_prepare_for_power (m * Finite (1 / 10)), Sleep 2,
      Opt_prepare_for_power (m * Finite (3 / 10)), Sleep 3,
      Opt_prepare_for_power (m * Finite (6 / 10)), Sleep 3,
      Opt_prepare_for_power (m * Finite (8 / 10)), Sleep 2]"

text \<open>
  The requests that \<^verbatim>\<open>_validate_emission_parameters\<close> lets through: those on which
  none of its four tests fires.
\<close>

definition passes_validation :: "QuantumLightSourceController \<Rightarrow> EmissionParameters \<Rightarrow> bool" where
  "passes_validation c p \<longleftrightarrow>
     \<not> (power_w p \<le> 0 \<or> power_w p > max_power (config c)) \<and> \<not> duration p < 0 \<and>
     \<not> frequency p < 0 \<and> \<not> (duty_cycle p \<le> 0 \<or> duty_cycle p > 1)"

section \<open>What each operation computes\<close>

lemmas prog_defs = returns_def raises_def bind_prog_def seq_prog_def try_except_def modify_def
  emit_def ignore_result_def on_quantum_jet_def on_optimizer_def on_monitor_def start_timer_def

subsection \<open>Comparing floats\<close>

lemma pyfloat_le_not_gt: "a \<le> b \<Longrightarrow> \<not> b < (a::pyfloat)"
  by (cases a; cases b) simp_all



lemma pyfloat_numbers_le_or_gt: "a \<noteq> NaN \<Longrightarrow> b \<noteq> NaN \<Longrightarrow> a \<le> b \<or> b < (a::pyfloat)"
  by (cases a; cases b) auto

lemma pyfloat_numbers_lt_or_ge: "a \<noteq> NaN \<Longrightarrow> b \<noteq> NaN \<Longrightarrow> a < b \<or> b \<le> (a::pyfloat)"
  by (cases a; cases b) auto

lemmas pyfloat_consts = zero_pyfloat_def one_pyfloat_def

lemma pyfloat_nan_compares_false:
  "\<not> NaN < a" "\<not> a < NaN" "\<not> NaN \<le> a" "\<not> a \<le> NaN"
  by (cases a; simp)+

subsection \<open>The operations as equations\<close>

lemma for_each_callback_eq:
  "for_each_callback cbs d c =
     (Returned (), c\<lparr>trace := trace c @ map (\<lambda>cb. Callback_invoked (cb_id cb) d) cbs\<rparr>)"
  by (induction cbs arbitrary: c) (simp_all add: prog_defs invoke_def)

lemma subscribers_update [simp]:
  "subscribers (state_update f1 c) = subscribers c"
  "subscribers (current_power_update f2 c) = subscribers c"
  "subscribers (quantum_jet_update f3 c) = subscribers c"
  "subscribers (optimizer_update f4 c) = subscribers c"
  "subscribers (monitor_update f5 c) = subscribers c"
  "subscribers (timers_update f6 c) = subscribers c"
  "subscribers (trace_update f7 c) = subscribers c"
  by (simp_all add: subscribers_def fun_eq_iff)

lemma state_change_trace_update [simp]:
  "state_change_trace (state_update f1 c) = state_change_trace c"
  "state_change_trace (current_power_update f2 c) = state_change_trace c"
  "state_change_trace (quantum_jet_update f3 c) = state_change_trace c"
  "state_change_trace (optimizer_update f4 c) = state_change_trace c"
  "state_change_trace (monitor_update f5 c) = state_change_trace c"
  "state_change_trace (timers_update f6 c) = state_change_trace c"
  "state_change_trace (trace_update f7 c) = state_change_trace c"
  by (simp_all add: state_change_trace_def fun_eq_iff)

lemma trigger_callbacks_eq:
  "trigger_callbacks event d c =
     (Returned (), c\<lparr>trace := trace c @ Published event d #
         map (\<lambda>cb. Callback_invoked (cb_id cb) d) (subscribers c event)\<rparr>)"
  by (simp add: trigger_callbacks_def prog_defs for_each_callback_eq)

lemma register_callback_known:
  "callbacks c event = Some cbs \<Longrightarrow>
   subscribers (snd (register_callback event cb c)) event = subscribers c event @ [cb]"
  by (simp add: register_callback_def subscribers_def)

lemma update_state_eq:
  "update_state s c =
     (Returned (), c\<lparr>state := s, trace := trace c @ state_change_trace c (state c) s\<rparr>)"
  by (simp add: update_state_def prog_defs trigger_callbacks_eq state_change_trace_def)

lemma stop_emission_emitting:
  "state c = EMITTING \<Longrightarrow> stop_emission c =
     (Returned (), c\<lparr>optimizer := (optimizer c)\<lparr>optimization_active := False\<rparr>,
        monitor := (monitor c)\<lparr>monitoring_active := False\<rparr>,
        state := READY, current_power := 0,
        trace := trace c @ Opt_stop_real_time_optimization # Mon_stop_power_monitoring #
                  state_change_trace c EMITTING READY\<rparr>)"
  by (simp add: stop_emission_def prog_defs update_state_eq opt_stop_real_time_optimization_def
      mon_stop_power_monitoring_def)

lemma stop_emission_idle: "state c \<noteq> EMITTING \<Longrightarrow> stop_emission c = (Returned (), c)"
  by (simp add: stop_emission_def)

lemma power_off_eq:
  "power_off c = (case stop_emission c of (r, c1) \<Rightarrow>
     (Returned (), c1\<lparr>optimizer := (optimizer c1)\<lparr>optimization_active := False\<rparr>,
        quantum_jet := (quantum_jet c1)\<lparr>status := ''off'', capsule_count := 0\<rparr>,
        state := OFF, current_power := 0,
        trace := trace c1 @ Opt_shutdown # Jet_shutdown # state_change_trace c (state c1) OFF\<rparr>))"
  by (cases "state c = EMITTING")
     (simp_all add: power_off_def stop_emission_emitting stop_emission_idle prog_defs update_state_eq
      opt_shutdown_def jet_shutdown_def)

lemma execute_warmup_sequence_eq:
  "execute_warmup_sequence c =
     (Returned (), c\<lparr>trace := trace c @ warmup_trace (max_power (config c))\<rparr>)"
  by (simp add: execute_warmup_sequence_def warmup_steps_def prog_defs opt_prepare_for_power_def
      warmup_trace_def)

lemma power_on_off:
  "state c = OFF \<Longrightarrow> power_on c =
     (Returned True, c\<lparr>quantum_jet := (quantum_jet c)\<lparr>status := ''ready'', capsule_count := 5000\<rparr>,
        state := READY,
        trace := trace c @ state_change_trace c OFF STANDBY @ [Jet_initialize, Opt_warm_up] @
                 warmup_trace (max_power (config c)) @ state_change_trace c STANDBY READY\<rparr>)"
  by (simp add: power_on_def prog_defs update_state_eq execute_warmup_sequence_eq jet_initialize_def
      opt_warm_up_def)

lemma power_on_not_off: "state c \<noteq> OFF \<Longrightarrow> power_on c = (Returned False, c)"
  by (simp add: power_on_def)

lemma validate_passes:
  "passes_validation c p \<Longrightarrow> validate_emission_parameters p c = (Returned (), c)"
  by (auto simp: passes_validation_def validate_emission_parameters_def prog_defs)

lemma validate_raises:
  "\<not> passes_validation c p \<Longrightarrow> validate_emission_parameters p c = (Raised ValueError, c)"
  by (auto simp: passes_validation_def validate_emission_parameters_def prog_defs)

lemma start_emission_rejected:
  "state c \<noteq> READY \<or> \<not> passes_validation c p \<Longrightarrow> start_emission p c = (Returned False, c)"
  by (auto simp: start_emission_def validate_raises prog_defs)

lemma start_emission_accepted:
  "state c = READY \<Longrightarrow> passes_validation c p \<Longrightarrow> start_emission p c =
     (Returned True, c\<lparr>optimizer := (optimizer c)\<lparr>optimization_active := True\<rparr>,
        monitor := (monitor c)\<lparr>monitoring_active := True\<rparr>,
        state := EMITTING, current_power := power_w p,
        timers := (if duration p > 0 then timers c @ [duration p] else timers c),
        trace := trace c @
          [Jet_configure_emission p, Opt_configure_optimization p, Mon_configure_monitoring p,
           Opt_start_real_time_optimization] @ state_change_trace c READY EMITTING @
          Mon_start_power_monitoring # (if duration p > 0 then [Timer_started (duration p)] else [])\<rparr>)"
  by (simp add: start_emission_def validate_passes prog_defs update_state_eq
      apply_emission_parameters_def jet_configure_emission_def opt_configure_optimization_def
      mon_configure_monitoring_def opt_start_real_time_optimization_def
      mon_start_power_monitoring_def)

lemma set_power_rejected:
  "state c \<noteq> EMITTING \<or> p < 0 \<or> max_power (config c) < p \<Longrightarrow> set_power p c = (Returned False, c)"
  by (auto simp: set_power_def)

lemma set_power_passes:
  "state c = EMITTING \<Longrightarrow> \<not> p < 0 \<Longrightarrow> \<not> max_power (config c) < p \<Longrightarrow> set_power p c =
     (Returned True, c\<lparr>optimizer := (optimizer c)\<lparr>optimizer_power := p\<rparr>, current_power := p,
        trace := trace c @ Opt_adjust_power p # Published ''power_update'' (Power_update p) #
                 map (\<lambda>cb. Callback_invoked (cb_id cb) (Power_update p))
                   (subscribers c ''power_update'')\<rparr>)"
  by (simp add: set_power_def prog_defs trigger_callbacks_eq opt_adjust_power_def)

lemma set_power_accepted:
  "state c = EMITTING \<Longrightarrow> 0 \<le> p \<Longrightarrow> p \<le> max_power (config c) \<Longrightarrow> set_power p c =
     (Returned True, c\<lparr>optimizer := (optimizer c)\<lparr>optimizer_power := p\<rparr>, current_power := p,
        trace := trace c @ Opt_adjust_power p # Published ''power_update'' (Power_update p) #
                 map (\<lambda>cb. Callback_invoked (cb_id cb) (Power_update p))
                   (subscribers c ''power_update'')\<rparr>)"
  by (rule set_power_passes) (simp_all add: pyfloat_le_not_gt)




subsection \<open>Calibration\<close>

lemma calibrate_with_result:
  "fst (calibrate_with jc oc mc c) =
     Returned (fst (jc (quantum_jet c)) = Returned True \<and> fst (oc (optimizer c)) = Returned True \<and>
               fst (mc (monitor c)) = Returned True)"
  unfolding calibrate_with_def
  by (cases "jc (quantum_jet c)"; cases "oc (optimizer c)"; cases "mc (monitor c)";
      cases "fst (jc (quantum_jet c))"; cases "fst (oc (optimizer c))"; cases "fst (mc (monitor c))")
     (auto simp add: prog_defs update_state_eq)

lemma calibrate_with_state:
  "state (snd (calibrate_with jc oc mc c)) =
     (if fst (jc (quantum_jet c)) = Returned True \<and> fst (oc (optimizer c)) = Returned True \<and>
         fst (mc (monitor c)) = Returned True then READY else ERROR)"
  unfolding calibrate_with_def
  by (cases "jc (quantum_jet c)"; cases "oc (optimizer c)"; cases "mc (monitor c)";
      cases "fst (jc (quantum_jet c))"; cases "fst (oc (optimizer c))"; cases "fst (mc (monitor c))")
     (auto simp add: prog_defs update_state_eq)

lemma calibrate_with_power:
  "current_power (snd (calibrate_with jc oc mc c)) = current_power c"
  unfolding calibrate_with_def
  by (cases "jc (quantum_jet c)"; cases "oc (optimizer c)"; cases "mc (monitor c)";
      cases "fst (jc (quantum_jet c))"; cases "fst (oc (optimizer c))"; cases "fst (mc (monitor c))")
     (auto simp add: prog_defs update_state_eq)

lemma calibrate_with_trace_prefix:
  "\<exists>rest. trace (snd (calibrate_with jc oc mc c)) =
      trace c @ state_change_trace c (state c) CALIBRATING @ Jet_calibrate # rest"
  unfolding calibrate_with_def
  by (cases "jc (quantum_jet c)"; cases "oc (optimizer c)"; cases "mc (monitor c)";
      cases "fst (jc (quantum_jet c))"; cases "fst (oc (optimizer c))"; cases "fst (mc (monitor c))")
     (auto simp add: prog_defs update_state_eq)

lemma calibrate_with_trace_all:
  assumes "\<forall>e. fst (jc (quantum_jet c)) \<noteq> Raised e" and "\<forall>e. fst (oc (optimizer c)) \<noteq> Raised e"
  shows "\<exists>rest. trace (snd (calibrate_with jc oc mc c)) =
      trace c @ state_change_trace c (state c) CALIBRATING @
      [Jet_calibrate, Opt_calibrate, Mon_calibrate_sensors] @ rest"
  using assms unfolding calibrate_with_def
  by (cases "jc (quantum_jet c)"; cases "oc (optimizer c)"; cases "mc (monitor c)";
      cases "fst (jc (quantum_jet c))"; cases "fst (oc (optimizer c))"; cases "fst (mc (monitor c))")
     (auto simp add: prog_defs update_state_eq)

subsection \<open>The concrete runs\<close>

lemma example_off_facts:
  "state example_off = OFF" "config example_off = example_config"
  "current_power example_off = 0" "timers example_off = []" "trace example_off = []"
  "subscribers example_off ''power_update'' = [failing_subscriber, quiet_subscriber]"
  "subscribers example_off ''state_change'' = [quiet_subscriber]"
  by (simp_all add: example_off_def QuantumLightSourceController_init_def register_callback_def
      prog_defs subscribers_def)

lemma example_ready_facts:
  "state example_ready = READY" "config example_ready = example_config"
  "current_power example_ready = 0" "timers example_ready = []"
  "subscribers example_ready ''power_update'' = [failing_subscriber, quiet_subscriber]"
  "subscribers example_ready ''state_change'' = [quiet_subscriber]"
  by (simp_all add: example_ready_def power_on_off example_off_facts)

lemma timed_emission_passes: "passes_validation example_ready timed_emission"
  by (simp add: passes_validation_def example_ready_facts example_config_def timed_emission_def
      pyfloat_consts)

lemma example_emitting_facts:
  "state example_emitting = EMITTING" "config example_emitting = example_config"
  "current_power example_emitting = Finite 3" "timers example_emitting = [Finite 10]"
  "subscribers example_emitting ''power_update'' = [failing_subscriber, quiet_subscriber]"
  "subscribers example_emitting ''state_change'' = [quiet_subscriber]"
  "optimization_active (optimizer example_emitting)"
  unfolding example_emitting_def
    start_emission_accepted [OF example_ready_facts(1) timed_emission_passes]
  by (simp_all add: example_ready_facts timed_emission_def pyfloat_consts)




text \<open>
  A power that is NaN passes both tests of \<^verbatim>\<open>set_power\<close>, as it passes those of
  \<^verbatim>\<open>_validate_emission_parameters\<close>.
\<close>

lemma set_power_nan_accepted:
  "fst (set_power NaN example_emitting) = Returned True"
  "state (snd (set_power NaN example_emitting)) = EMITTING"
  "current_power (snd (set_power NaN example_emitting)) = NaN"
  by (simp_all add: set_power_passes example_emitting_facts pyfloat_nan_compares_false)

subsection \<open>Switching off, and the power outside an emission\<close>



text \<open>
  If the power is zero whenever the controller is not emitting, it is so again after
  every operation but one: \<^verbatim>\<open>calibrate\<close> keeps the power it finds, so it keeps the
  property only when it is not called during an emission.
\<close>

lemma power_invariant_other_operations:
  assumes inv: "current_power c \<noteq> 0 \<longrightarrow> state c = EMITTING"
  shows "current_power (snd (power_on c)) \<noteq> 0 \<longrightarrow> state (snd (power_on c)) = EMITTING"
    and "current_power (snd (power_off c)) \<noteq> 0 \<longrightarrow> state (snd (power_off c)) = EMITTING"
    and "current_power (snd (start_emission p c)) \<noteq> 0 \<longrightarrow> state (snd (start_emission p c)) = EMITTING"
    and "current_power (snd (stop_emission c)) \<noteq> 0 \<longrightarrow> state (snd (stop_emission c)) = EMITTING"
    and "current_power (snd (set_power q c)) \<noteq> 0 \<longrightarrow> state (snd (set_power q c)) = EMITTING"
    and "current_power (snd (timer_expires i c)) \<noteq> 0 \<longrightarrow> state (snd (timer_expires i c)) = EMITTING"
    and "state c \<noteq> EMITTING \<longrightarrow> current_power (snd (calibrate_with jc oc mc c)) = 0"
proof -
  show "current_power (snd (power_on c)) \<noteq> 0 \<longrightarrow> state (snd (power_on c)) = EMITTING"
    using inv by (cases "state c = OFF") (simp_all add: power_on_off power_on_not_off)
  show "current_power (snd (power_off c)) \<noteq> 0 \<longrightarrow> state (snd (power_off c)) = EMITTING"
    by (cases "state c = EMITTING")
       (simp_all add: power_off_eq stop_emission_emitting stop_emission_idle)
  show "current_power (snd (start_emission p c)) \<noteq> 0 \<longrightarrow> state (snd (start_emission p c)) = EMITTING"
    using inv
    by (cases "state c = READY \<and> passes_validation c p")
       (simp_all add: start_emission_accepted start_emission_rejected)
  show "current_power (snd (stop_emission c)) \<noteq> 0 \<longrightarrow> state (snd (stop_emission c)) = EMITTING"
    using inv by (cases "state c = EMITTING") (simp_all add: stop_emission_emitting stop_emission_idle)
  show "current_power (snd (set_power q c)) \<noteq> 0 \<longrightarrow> state (snd (set_power q c)) = EMITTING"
    using inv
    by (cases "state c = EMITTING \<and> \<not> q < 0 \<and> \<not> max_power (config c) < q")
       (auto simp add: set_power_passes set_power_rejected)
  show "current_power (snd (timer_expires i c)) \<noteq> 0 \<longrightarrow> state (snd (timer_expires i c)) = EMITTING"
    using inv
    by (cases "state c = EMITTING"; cases "i < length (timers c)")
       (simp_all add: timer_expires_def stop_emission_emitting stop_emission_idle)
  show "state c \<noteq> EMITTING \<longrightarrow> current_power (snd (calibrate_with jc oc mc c)) = 0"
    using inv by (auto simp add: calibrate_with_power)
qed

section \<open>The claims\<close>

subsection \<open>Switching on\<close>

text \<open>
  Claim C10. When the state is anything other than \<open>OFF\<close>, \<^verbatim>\<open>power_on\<close> returns false
  and leaves the controller as it was: state, current power, the three subsystems, the
  pending timers and the effect history are all unchanged, so there is no transition to
  \<open>STANDBY\<close>, no subsystem is initialised and no warm-up ramp is started.
\<close>

theorem power_on_rejected_unless_off:
  "state c \<noteq> OFF \<Longrightarrow> power_on c = (Returned False, c)"
  by (simp add: power_on_def)

text \<open>The controller that has been switched on is not \<open>OFF\<close>; switching it on again is refused.\<close>

theorem power_on_rejected_unless_off_witness:
  "state example_ready \<noteq> OFF \<and> power_on example_ready = (Returned False, example_ready)"
  using power_on_rejected_unless_off [of example_ready] by (simp add: example_ready_facts)

subsection \<open>Starting an emission\<close>




subsection \<open>Changing the power\<close>

text \<open>
  Claim C1, as the code has it. \<^verbatim>\<open>set_power\<close> tests \<^verbatim>\<open>power < 0 or power > max_power\<close>,
  so the accepted interval is closed at zero. \<^verbatim>\<open>set_power(p)\<close> is rejected (false,
  controller unchanged, nothing published) whenever the state is not \<open>EMITTING\<close>, or
  \<open>p < 0\<close>, or \<open>p > max_power\<close>: when \<open>p\<close> and \<open>max_power\<close> are numbers, whenever
  \<open>p\<close> lies outside [0, max_power]. For every \<open>p\<close> with \<open>0 \<le> p \<le> max_power\<close> a call in
  \<open>EMITTING\<close> returns true, sets \<open>current_power\<close> to \<open>p\<close> and publishes exactly one
  \<^verbatim>\<open>power_update\<close> event with payload \<open>p\<close>, delivered to each subscriber in turn.
  Nothing is said of a power that is NaN.
\<close>

theorem set_power_closed_interval:
  "(state c \<noteq> EMITTING \<or> p < 0 \<or> max_power (config c) < p
      \<longrightarrow> set_power p c = (Returned False, c)) \<and>
   (p \<noteq> NaN \<and> max_power (config c) \<noteq> NaN \<and> \<not> (0 \<le> p \<and> p \<le> max_power (config c))
      \<longrightarrow> set_power p c = (Returned False, c)) \<and>
   (state c = EMITTING \<and> 0 \<le> p \<and> p \<le> max_power (config c)
      \<longrightarrow> fst (set_power p c) = Returned True \<and>
          state (snd (set_power p c)) = EMITTING \<and>
          current_power (snd (set_power p c)) = p \<and>
          trace (snd (set_power p c)) =
            trace c @ Opt_adjust_power p # Published ''power_update'' (Power_update p) #
            map (\<lambda>cb. Callback_invoked (cb_id cb) (Power_update p)) (subscribers c ''power_update''))"
proof (intro conjI impI)
  assume "state c \<noteq> EMITTING \<or> p < 0 \<or> max_power (config c) < p"
  then show "set_power p c = (Returned False, c)" by (rule set_power_rejected)
next
  assume a: "p \<noteq> NaN \<and> max_power (config c) \<noteq> NaN \<and> \<not> (0 \<le> p \<and> p \<le> max_power (config c))"
  have z: "(0::pyfloat) \<noteq> NaN" by (simp add: pyfloat_consts)
  from a have "p < 0 \<or> max_power (config c) < p"
    using pyfloat_numbers_lt_or_ge [of p 0] pyfloat_numbers_le_or_gt [of p "max_power (config c)"] z
    by blast
  then show "set_power p c = (Returned False, c)" by (simp add: set_power_rejected)
next
  assume a: "state c = EMITTING \<and> 0 \<le> p \<and> p \<le> max_power (config c)"
  then have eq: "set_power p c =
     (Returned True, c\<lparr>optimizer := (optimizer c)\<lparr>optimizer_power := p\<rparr>, current_power := p,
        trace := trace c @ Opt_adjust_power p # Published ''power_update'' (Power_update p) #
                 map (\<lambda>cb. Callback_invoked (cb_id cb) (Power_update p))
                   (subscribers c ''power_update'')\<rparr>)"
    by (simp add: set_power_accepted)
  show "fst (set_power p c) = Returned True" by (simp add: eq)
  show "state (snd (set_power p c)) = EMITTING" using a by (simp add: eq)
  show "current_power (snd (set_power p c)) = p" by (simp add: eq)
  show "trace (snd (set_power p c)) =
            trace c @ Opt_adjust_power p # Published ''power_update'' (Power_update p) #
            map (\<lambda>cb. Callback_invoked (cb_id cb) (Power_update p)) (subscribers c ''power_update'')"
    by (simp add: eq)
qed

text \<open>
  Setting 4 nW is refused in \<open>READY\<close> and accepted while emitting; setting 6 nW against
  a maximum of 5 nW is refused while emitting.
\<close>

theorem set_power_closed_interval_witness:
  "(state example_ready \<noteq> EMITTING \<and>
    set_power (Finite 4) example_ready = (Returned False, example_ready)) \<and>
   (Finite 6 \<noteq> NaN \<and> max_power (config example_emitting) \<noteq> NaN \<and>
    \<not> (0 \<le> Finite 6 \<and> Finite 6 \<le> max_power (config example_emitting)) \<and>
    set_power (Finite 6) example_emitting = (Returned False, example_emitting)) \<and>
   (state example_emitting = EMITTING \<and> 0 \<le> Finite 4 \<and>
    Finite 4 \<le> max_power (config example_emitting) \<and>
    fst (set_power (Finite 4) example_emitting) = Returned True \<and>
    current_power (snd (set_power (Finite 4) example_emitting)) = Finite 4 \<and>
    trace (snd (set_power (Finite 4) example_emitting)) =
      trace example_emitting @
      [Opt_adjust_power (Finite 4), Published ''power_update'' (Power_update (Finite 4)),
       Callback_invoked 2 (Power_update (Finite 4)), Callback_invoked 1 (Power_update (Finite 4))])"
proof -
  note idle = set_power_closed_interval [of example_ready "Finite 4"]
  note high = set_power_closed_interval [of example_emitting "Finite 6"]
  note good = set_power_closed_interval [of example_emitting "Finite 4"]
  have r: "state example_ready \<noteq> EMITTING" by (simp add: example_ready_facts)
  have h: "Finite 6 \<noteq> NaN \<and> max_power (config example_emitting) \<noteq> NaN \<and>
      \<not> (0 \<le> Finite 6 \<and> Finite 6 \<le> max_power (config example_emitting))"
    by (simp add: example_emitting_facts example_config_def pyfloat_consts)
  have g: "state example_emitting = EMITTING \<and> 0 \<le> Finite 4 \<and>
      Finite 4 \<le> max_power (config example_emitting)"
    by (simp add: example_emitting_facts example_config_def pyfloat_consts)
  have r': "set_power (Finite 4) example_ready = (Returned False, example_ready)"
    using idle [THEN conjunct1] r by blast
  have h': "set_power (Finite 6) example_emitting = (Returned False, example_emitting)"
    by (rule high [THEN conjunct2, THEN conjunct1, THEN mp, OF h])
  note g' = good [THEN conjunct2, THEN conjunct2, THEN mp, OF g]
  have tr: "trace (snd (set_power (Finite 4) example_emitting)) =
      trace example_emitting @
      [Opt_adjust_power (Finite 4), Published ''power_update'' (Power_update (Finite 4)),
       Callback_invoked 2 (Power_update (Finite 4)), Callback_invoked 1 (Power_update (Finite 4))]"
    unfolding g' [THEN conjunct2, THEN conjunct2, THEN conjunct2]
    by (simp add: example_emitting_facts failing_subscriber_def quiet_subscriber_def)
  from r r' h h' g g' [THEN conjunct1] g' [THEN conjunct2, THEN conjunct2, THEN conjunct1] tr
  show ?thesis by (intro conjI) (elim conjE; assumption)+
qed

text \<open>
  The claim as written puts zero outside the accepted interval. While emitting,
  \<^verbatim>\<open>set_power(0)\<close> is accepted: it returns true, sets the power to zero and publishes
  the event.
\<close>

theorem set_power_zero_counterexample:
  "state example_emitting = EMITTING \<and>
   \<not> (0::pyfloat) < 0 \<and>
   fst (set_power 0 example_emitting) = Returned True \<and>
   current_power (snd (set_power 0 example_emitting)) = 0 \<and>
   trace (snd (set_power 0 example_emitting)) =
     trace example_emitting @
     [Opt_adjust_power 0, Published ''power_update'' (Power_update 0),
      Callback_invoked 2 (Power_update 0), Callback_invoked 1 (Power_update 0)]"
proof -
  have ok: "(0::pyfloat) \<le> 0" "0 \<le> max_power (config example_emitting)" "\<not> (0::pyfloat) < 0"
    by (simp_all add: example_emitting_facts example_config_def pyfloat_consts)
  show ?thesis
    unfolding set_power_accepted [OF example_emitting_facts(1) ok(1) ok(2)]
    using ok(3)
    by (simp add: example_emitting_facts failing_subscriber_def quiet_subscriber_def)
qed

subsection \<open>The deferred stop\<close>




subsection \<open>Switching off\<close>



subsection \<open>Calibration\<close>

text \<open>
  Claim C5. \<^verbatim>\<open>calibrate\<close> publishes the change to \<open>CALIBRATING\<close> before it calls any
  subsystem, then calibrates the particle source, the optimizer and the monitor in that
  order. It returns true and ends in \<open>READY\<close> exactly when all three calibrations
  return true; when one returns false or raises, it returns false and ends in \<open>ERROR\<close>.
  All three are called unless an earlier one raises. The statement is about the body of
  \<^verbatim>\<open>calibrate\<close> for any three calibration methods.
\<close>

theorem calibrate_with_all_or_error:
  "fst (calibrate_with jc oc mc c) =
     Returned (fst (jc (quantum_jet c)) = Returned True \<and> fst (oc (optimizer c)) = Returned True \<and>
               fst (mc (monitor c)) = Returned True) \<and>
   state (snd (calibrate_with jc oc mc c)) =
     (if fst (jc (quantum_jet c)) = Returned True \<and> fst (oc (optimizer c)) = Returned True \<and>
         fst (mc (monitor c)) = Returned True then READY else ERROR) \<and>
   (\<exists>rest. trace (snd (calibrate_with jc oc mc c)) =
      trace c @ state_change_trace c (state c) CALIBRATING @ Jet_calibrate # rest) \<and>
   ((\<forall>e. fst (jc (quantum_jet c)) \<noteq> Raised e) \<and> (\<forall>e. fst (oc (optimizer c)) \<noteq> Raised e) \<longrightarrow>
    (\<exists>rest. trace (snd (calibrate_with jc oc mc c)) =
      trace c @ state_change_trace c (state c) CALIBRATING @
      [Jet_calibrate, Opt_calibrate, Mon_calibrate_sensors] @ rest))"
proof (intro conjI impI)
  assume "(\<forall>e. fst (jc (quantum_jet c)) \<noteq> Raised e) \<and> (\<forall>e. fst (oc (optimizer c)) \<noteq> Raised e)"
  then show "\<exists>rest. trace (snd (calibrate_with jc oc mc c)) =
      trace c @ state_change_trace c (state c) CALIBRATING @
      [Jet_calibrate, Opt_calibrate, Mon_calibrate_sensors] @ rest"
    using calibrate_with_trace_all [of jc c oc mc] by blast
qed (rule calibrate_with_result calibrate_with_state calibrate_with_trace_prefix)+

text \<open>
  A particle source whose calibration returns false, one whose calibration raises, and
  the simulated subsystems of the source, which always succeed.
\<close>

theorem calibrate_with_all_or_error_witness:
  "(\<forall>e. fst (jet_calibrate_failing (quantum_jet example_ready)) \<noteq> Raised e) \<and>
   (\<forall>e. fst (opt_calibrate (optimizer example_ready)) \<noteq> Raised e) \<and>
   fst (calibrate_with jet_calibrate_failing opt_calibrate mon_calibrate_sensors example_ready) =
     Returned False \<and>
   state (snd (calibrate_with jet_calibrate_failing opt_calibrate mon_calibrate_sensors example_ready)) =
     ERROR \<and>
   (\<exists>rest. trace (snd (calibrate_with jet_calibrate_failing opt_calibrate mon_calibrate_sensors
                          example_ready)) =
      trace example_ready @ state_change_trace example_ready (state example_ready) CALIBRATING @
      [Jet_calibrate, Opt_calibrate, Mon_calibrate_sensors] @ rest) \<and>
   fst (calibrate_with jet_calibrate_raising opt_calibrate mon_calibrate_sensors example_ready) =
     Returned False \<and>
   state (snd (calibrate_with jet_calibrate_raising opt_calibrate mon_calibrate_sensors example_ready)) =
     ERROR \<and>
   fst (calibrate example_ready) = Returned True \<and>
   state (snd (calibrate example_ready)) = READY"
proof -
  note failing = calibrate_with_all_or_error
    [of jet_calibrate_failing opt_calibrate mon_calibrate_sensors example_ready]
  note raising = calibrate_with_all_or_error
    [of jet_calibrate_raising opt_calibrate mon_calibrate_sensors example_ready]
  note simulated = calibrate_with_all_or_error
    [of jet_calibrate opt_calibrate mon_calibrate_sensors example_ready]
  have quiet: "(\<forall>e. fst (jet_calibrate_failing (quantum_jet example_ready)) \<noteq> Raised e) \<and>
      (\<forall>e. fst (opt_calibrate (optimizer example_ready)) \<noteq> Raised e)"
    by (simp add: jet_calibrate_failing_def opt_calibrate_def)
  have called: "\<exists>rest. trace (snd (calibrate_with jet_calibrate_failing opt_calibrate
        mon_calibrate_sensors example_ready)) =
      trace example_ready @ state_change_trace example_ready (state example_ready) CALIBRATING @
      [Jet_calibrate, Opt_calibrate, Mon_calibrate_sensors] @ rest"
    by (rule failing [THEN conjunct2, THEN conjunct2, THEN conjunct2, THEN mp, OF quiet])
  have f: "fst (calibrate_with jet_calibrate_failing opt_calibrate mon_calibrate_sensors example_ready) =
     Returned False"
    "state (snd (calibrate_with jet_calibrate_failing opt_calibrate mon_calibrate_sensors example_ready)) =
     ERROR"
    using failing [THEN conjunct1] failing [THEN conjunct2, THEN conjunct1]
    by (simp_all add: jet_calibrate_failing_def)
  have r: "fst (calibrate_with jet_calibrate_raising opt_calibrate mon_calibrate_sensors example_ready) =
     Returned False"
    "state (snd (calibrate_with jet_calibrate_raising opt_calibrate mon_calibrate_sensors example_ready)) =
     ERROR"
    using raising [THEN conjunct1] raising [THEN conjunct2, THEN conjunct1]
    by (simp_all add: jet_calibrate_raising_def)
  have s: "fst (calibrate example_ready) = Returned True"
    "state (snd (calibrate example_ready)) = READY"
    using simulated [THEN conjunct1] simulated [THEN conjunct2, THEN conjunct1]
    by (simp_all add: calibrate_def jet_calibrate_def opt_calibrate_def mon_calibrate_sensors_def)
  from quiet called f r s show ?thesis by (intro conjI) (elim conjE; assumption)+
qed

subsection \<open>The power outside an emission\<close>

text \<open>
  Claim C6 says that every public operation keeps \<open>current_power\<close> at zero outside
  \<open>EMITTING\<close>. \<^verbatim>\<open>calibrate\<close> has no guard on the state and does not touch the power:
  called during the emission at 3 nW it returns true and ends in \<open>READY\<close> with
  \<open>current_power\<close> still 3 nW.
\<close>

theorem calibrate_while_emitting_keeps_power:
  "state example_emitting = EMITTING \<and>
   current_power example_emitting = Finite 3 \<and>
   fst (calibrate example_emitting) = Returned True \<and>
   state (snd (calibrate example_emitting)) = READY \<and>
   current_power (snd (calibrate example_emitting)) = Finite 3"
  by (simp add: example_emitting_facts calibrate_def calibrate_with_result calibrate_with_state
      calibrate_with_power jet_calibrate_def opt_calibrate_def mon_calibrate_sensors_def)

subsection \<open>Publishing events\<close>

text \<open>
  Claim C7. Publishing an event calls every subscriber registered for that event name,
  in registration order (registration appends to the list of the name), whether or not
  earlier subscribers raise; the publication returns normally, and so does the change of
  state that publishes.
\<close>

theorem trigger_callbacks_reaches_every_subscriber:
  "for_each_callback cbs d c =
     (Returned (), c\<lparr>trace := trace c @ map (\<lambda>cb. Callback_invoked (cb_id cb) d) cbs\<rparr>) \<and>
   trigger_callbacks event d c =
     (Returned (), c\<lparr>trace := trace c @ Published event d #
         map (\<lambda>cb. Callback_invoked (cb_id cb) d) (subscribers c event)\<rparr>) \<and>
   (\<forall>known. callbacks c event = Some known \<longrightarrow>
      subscribers (snd (register_callback event cb c)) event = subscribers c event @ [cb]) \<and>
   fst (update_state s c) = Returned ()"
  by (simp add: for_each_callback_eq trigger_callbacks_eq register_callback_known update_state_eq)

text \<open>
  The subscriber registered first raises on every payload; the one registered after it is
  still called, and the publication returns.
\<close>

theorem trigger_callbacks_reaches_every_subscriber_witness:
  "cb_raises failing_subscriber (Power_update (Finite 4)) \<and>
   callbacks example_off ''power_update'' = Some [failing_subscriber, quiet_subscriber] \<and>
   subscribers (snd (register_callback ''power_update'' quiet_subscriber example_off)) ''power_update'' =
     [failing_subscriber, quiet_subscriber, quiet_subscriber] \<and>
   trigger_callbacks ''power_update'' (Power_update (Finite 4)) example_off =
     (Returned (), example_off\<lparr>trace :=
        [Published ''power_update'' (Power_update (Finite 4)),
         Callback_invoked 2 (Power_update (Finite 4)), Callback_invoked 1 (Power_update (Finite 4))]\<rparr>)"
proof -
  note t = trigger_callbacks_reaches_every_subscriber
    [of "[]" "Power_update (Finite 4)" example_off "''power_update''" quiet_subscriber OFF]
  have known: "callbacks example_off ''power_update'' = Some [failing_subscriber, quiet_subscriber]"
    by (simp add: example_off_def QuantumLightSourceController_init_def register_callback_def
        prog_defs)
  have reg: "subscribers (snd (register_callback ''power_update'' quiet_subscriber example_off))
      ''power_update'' = subscribers example_off ''power_update'' @ [quiet_subscriber]"
    using t [THEN conjunct2, THEN conjunct2, THEN conjunct1] known by blast
  have pub: "trigger_callbacks ''power_update'' (Power_update (Finite 4)) example_off =
     (Returned (), example_off\<lparr>trace := trace example_off @
        Published ''power_update'' (Power_update (Finite 4)) #
        map (\<lambda>cb. Callback_invoked (cb_id cb) (Power_update (Finite 4)))
          (subscribers example_off ''power_update'')\<rparr>)"
    by (rule t [THEN conjunct2, THEN conjunct1])
  show ?thesis
    unfolding pub reg using known
    by (simp add: example_off_facts failing_subscriber_def quiet_subscriber_def)
qed

subsection \<open>Device adapters\<close>

text \<open>
  Claim C8. For each of the three adapter variants, \<^verbatim>\<open>send_command\<close> on an adapter
  whose \<open>connected\<close> flag is false returns the not-connected error for every command and
  every parameter dictionary, and attempts no exchange on the transport.
\<close>

theorem send_command_not_connected:
  "\<not> connected a \<Longrightarrow> send_command a command parameters w = (Error_not_connected, w)"
  by (cases a) simp_all

text \<open>One unconnected adapter of each variant.\<close>

theorem send_command_not_connected_witness:
  "\<not> connected stage_adapter \<and>
   send_command stage_adapter ''move'' [] example_world = (Error_not_connected, example_world) \<and>
   \<not> connected (EthernetAdapter ''10.0.0.7'' 5000 (Finite 5) False False) \<and>
   send_command (EthernetAdapter ''10.0.0.7'' 5000 (Finite 5) False False) ''move'' [] example_world =
     (Error_not_connected, example_world) \<and>
   \<not> connected (ModbusTCPAdapter ''10.0.0.8'' 502 False) \<and>
   send_command (ModbusTCPAdapter ''10.0.0.8'' 502 False) ''move'' [] example_world =
     (Error_not_connected, example_world)"
proof -
  have s: "\<not> connected stage_adapter" by (simp add: stage_adapter_def)
  have e: "\<not> connected (EthernetAdapter ''10.0.0.7'' 5000 (Finite 5) False False)" by simp
  have m: "\<not> connected (ModbusTCPAdapter ''10.0.0.8'' 502 False)" by simp
  from s e m send_command_not_connected [OF s, of "''move''" "[]" example_world]
    send_command_not_connected [OF e, of "''move''" "[]" example_world]
    send_command_not_connected [OF m, of "''move''" "[]" example_world]
  show ?thesis by (intro conjI)
qed

text \<open>
  Claim C9. \<^verbatim>\<open>send_to_device\<close> returns the not-registered error when the device
  identifier is not in the registration map, and otherwise exactly what the adapter
  registered under that identifier returns for the command; the manager, and so the
  registration map, is unchanged in both cases.
\<close>

theorem send_to_device_routes:
  "(adapters m device_id = None \<longrightarrow>
      send_to_device device_id command ps m w = (Error_not_registered device_id, m, w)) \<and>
   (\<forall>a. adapters m device_id = Some a \<longrightarrow>
      send_to_device device_id command ps m w =
        (fst (send_command a command ps w), m, snd (send_command a command ps w)))"
  by (simp add: send_to_device_def split: prod.split)

text \<open>
  A manager with the single device \<^verbatim>\<open>stage\<close>, whose adapter is not connected: an
  unknown identifier, then the registered one.
\<close>

theorem send_to_device_routes_witness:
  "adapters example_manager ''laser'' = None \<and>
   send_to_device ''laser'' ''move'' [] example_manager example_world =
     (Error_not_registered ''laser'', example_manager, example_world) \<and>
   adapters example_manager ''stage'' = Some stage_adapter \<and>
   send_to_device ''stage'' ''move'' [] example_manager example_world =
     (Error_not_connected, example_manager, example_world)"
proof -
  note t1 = send_to_device_routes [of example_manager "''laser''" "''move''" "[]" example_world]
  note t2 = send_to_device_routes [of example_manager "''stage''" "''move''" "[]" example_world]
  have n: "adapters example_manager ''laser'' = None"
    by (simp add: example_manager_def register_device_def DeviceManager_init_def)
  have r: "adapters example_manager ''stage'' = Some stage_adapter"
    by (simp add: example_manager_def register_device_def DeviceManager_init_def)
  have a: "send_to_device ''laser'' ''move'' [] example_manager example_world =
     (Error_not_registered ''laser'', example_manager, example_world)"
    by (rule t1 [THEN conjunct1, THEN mp, OF n])
  have b: "send_to_device ''stage'' ''move'' [] example_manager example_world =
     (fst (send_command stage_adapter ''move'' [] example_world), example_manager,
      snd (send_command stage_adapter ''move'' [] example_world))"
    by (rule t2 [THEN conjunct2, THEN spec, THEN mp, OF r])
  show ?thesis unfolding b using n r a by (simp add: stage_adapter_def)
qed


end
